theory Spec2Isabelle
  imports Main
begin

section \<open>Strings and arrays of the host language\<close>

text \<open>
  Strings are lists of 8-bit characters. This is what Node hands over for request targets
  and header values (decoded as latin1) and what an iso-8859-1 page decodes to. The
  functions below are the methods of \<^verbatim>\<open>String.prototype\<close> and \<^verbatim>\<open>Array.prototype\<close>
  that \<^verbatim>\<open>src/index.ts\<close> calls, each with the behaviour ECMAScript gives it.
\<close>

text \<open>\<^verbatim>\<open>s.split(sep)\<close> for a one-character separator: \<^verbatim>\<open>"".split("/")\<close> is \<^verbatim>\<open>[""]\<close>.\<close>

fun String_split :: "char \<Rightarrow> string \<Rightarrow> string list" where
  "String_split sep [] = [[]]"
| "String_split sep (c # cs) =
     (if c = sep then [] # String_split sep cs
      else (case String_split sep cs of [] \<Rightarrow> [[c]] | p # ps \<Rightarrow> (c # p) # ps))"

text \<open>\<^verbatim>\<open>parts.filter(Boolean)\<close> on an array of strings keeps the non-empty ones.\<close>

definition filter_Boolean :: "string list \<Rightarrow> string list" where
  "filter_Boolean parts = filter (\<lambda>p. p \<noteq> []) parts"

text \<open>\<^verbatim>\<open>parts.join(sep)\<close>.\<close>

fun Array_join :: "string \<Rightarrow> string list \<Rightarrow> string" where
  "Array_join sep [] = []"
| "Array_join sep [p] = p"
| "Array_join sep (p # q # ps) = p @ sep @ Array_join sep (q # ps)"

definition String_startsWith :: "string \<Rightarrow> string \<Rightarrow> bool" where
  "String_startsWith s p = (take (length p) s = p)"

fun String_includes :: "string \<Rightarrow> string \<Rightarrow> bool" where
  "String_includes [] sub = (sub = [])"
| "String_includes (c # cs) sub = (String_startsWith (c # cs) sub \<or> String_includes cs sub)"

text \<open>
  \<^verbatim>\<open>s.replace(pat, rep)\<close> with a string pattern: only the first occurrence is replaced.
  (The one replacement text this is used with contains no \<^verbatim>\<open>$\<close>.)
\<close>

fun String_replace :: "string \<Rightarrow> string \<Rightarrow> string \<Rightarrow> string" where
  "String_replace [] pat rep = (if pat = [] then rep else [])"
| "String_replace (c # cs) pat rep =
     (if String_startsWith (c # cs) pat then rep @ drop (length pat) (c # cs)
      else c # String_replace cs pat rep)"

text \<open>\<^verbatim>\<open>s.toLowerCase()\<close> on the ASCII letters, which is all a header name can hold.\<close>

definition toLowerCase_char :: "char \<Rightarrow> char" where
  "toLowerCase_char c =
     (case map_of (zip ''ABCDEFGHIJKLMNOPQRSTUVWXYZ'' ''abcdefghijklmnopqrstuvwxyz'') c of
        None \<Rightarrow> c | Some l \<Rightarrow> l)"

definition String_toLowerCase :: "string \<Rightarrow> string" where
  "String_toLowerCase s = map toLowerCase_char s"

text \<open>
  A template literal prints the value \<^verbatim>\<open>undefined\<close> as the nine letters of its name.
  \<open>None\<close> stands for \<^verbatim>\<open>undefined\<close>.
\<close>

definition tpl :: "string option \<Rightarrow> string" where
  "tpl v = (case v of None \<Rightarrow> ''undefined'' | Some s \<Rightarrow> s)"

section \<open>The site table\<close>

record DomainConfig =
  prefix :: string
  domain :: string
  pathPrefix :: string

definition st_config :: DomainConfig where
  "st_config = \<lparr>prefix = ''st'', domain = ''salafitalk.net'', pathPrefix = ''st''\<rparr>"

definition sm_config :: DomainConfig where
  "sm_config = \<lparr>prefix = ''sm'', domain = ''sahihmuslim.com'', pathPrefix = ''sps/smm''\<rparr>"

definition sc_config :: DomainConfig where
  "sc_config = \<lparr>prefix = ''sc'', domain = ''salafitalk.com'', pathPrefix = ''''\<rparr>"

text \<open>The own properties of the object literal \<^verbatim>\<open>DOMAIN_CONFIGS\<close>, in source order.\<close>

definition DOMAIN_CONFIGS_entries :: "(string \<times> DomainConfig) list" where
  "DOMAIN_CONFIGS_entries = [(''st'', st_config), (''sm'', sm_config), (''sc'', sc_config)]"

text \<open>
  \<^verbatim>\<open>DOMAIN_CONFIGS\<close> is written as an object literal, so its prototype is
  \<^verbatim>\<open>Object.prototype\<close> and a property read \<^verbatim>\<open>DOMAIN_CONFIGS[key]\<close> that finds no own
  property continues there. These are the names \<^verbatim>\<open>Object.prototype\<close> defines; each of
  them reads as a function (or, for \<^verbatim>\<open>__proto__\<close>, as \<^verbatim>\<open>Object.prototype\<close> itself),
  which is a truthy value with no \<^verbatim>\<open>prefix\<close>, \<^verbatim>\<open>domain\<close> or \<^verbatim>\<open>pathPrefix\<close>.
\<close>

definition Object_prototype_keys :: "string list" where
  "Object_prototype_keys =
     [''constructor'', ''__proto__'', ''hasOwnProperty'', ''isPrototypeOf'',
      ''propertyIsEnumerable'', ''toString'', ''toLocaleString'', ''valueOf'',
      ''__defineGetter__'', ''__defineSetter__'', ''__lookupGetter__'', ''__lookupSetter__'']"

text \<open>
  A truthy result of \<^verbatim>\<open>DOMAIN_CONFIGS[key]\<close>: an entry of the table, or a member inherited
  from \<^verbatim>\<open>Object.prototype\<close>. \<open>None\<close> is \<^verbatim>\<open>undefined\<close>.
\<close>

datatype config_ref = Own DomainConfig | Inherited

definition DOMAIN_CONFIGS :: "string \<Rightarrow> config_ref option" where
  "DOMAIN_CONFIGS key =
     (case map_of DOMAIN_CONFIGS_entries key of
        Some c \<Rightarrow> Some (Own c)
      | None \<Rightarrow> if key \<in> set Object_prototype_keys then Some Inherited else None)"

text \<open>The field reads \<^verbatim>\<open>domainConfig.prefix\<close>, \<^verbatim>\<open>.domain\<close> and \<^verbatim>\<open>.pathPrefix\<close>.\<close>

fun cfg_prefix :: "config_ref \<Rightarrow> string option" where
  "cfg_prefix (Own c) = Some (prefix c)"
| "cfg_prefix Inherited = None"

fun cfg_domain :: "config_ref \<Rightarrow> string option" where
  "cfg_domain (Own c) = Some (domain c)"
| "cfg_domain Inherited = None"

fun cfg_pathPrefix :: "config_ref \<Rightarrow> string option" where
  "cfg_pathPrefix (Own c) = Some (pathPrefix c)"
| "cfg_pathPrefix Inherited = None"

text \<open>\<^verbatim>\<open>Object.values(DOMAIN_CONFIGS)\<close> lists the own entries only.\<close>

definition DOMAIN_CONFIGS_values :: "DomainConfig list" where
  "DOMAIN_CONFIGS_values = map snd DOMAIN_CONFIGS_entries"

definition ALLOWED_DOMAINS :: "string list" where
  "ALLOWED_DOMAINS = map domain DOMAIN_CONFIGS_values"

text \<open>
  \<^verbatim>\<open>DOMAIN_TO_CONFIG\<close> is filled by a \<^verbatim>\<open>reduce\<close> that assigns \<^verbatim>\<open>acc[config.domain]\<close> in
  order, a later entry overwriting an earlier one. It is read only at a host name taken
  from the table, at the text its pattern matched, or at \<^verbatim>\<open>undefined\<close>; none of these is a
  name of \<^verbatim>\<open>Object.prototype\<close>, so the lookup is that of the own properties.
\<close>

definition DOMAIN_TO_CONFIG :: "string \<Rightarrow> DomainConfig option" where
  "DOMAIN_TO_CONFIG = map_of (rev (map (\<lambda>c. (domain c, c)) DOMAIN_CONFIGS_values))"

section \<open>Routing an inbound request target\<close>

text \<open>
  Lines 138 to 156 of \<^verbatim>\<open>ProxyHandler.handle\<close>: the segments of \<^verbatim>\<open>req.url\<close>, the lookup of
  the first one, and the target URL. \<open>None\<close> is the early \<^verbatim>\<open>return\<close>.
\<close>

definition pathParts_of :: "string \<Rightarrow> string list" where
  "pathParts_of url = filter_Boolean (String_split CHR ''/'' url)"

definition targetUrl_of :: "config_ref \<Rightarrow> string list \<Rightarrow> string" where
  "targetUrl_of domainConfig rest =
     ''http://'' @ tpl (cfg_domain domainConfig) @ ''/'' @ tpl (cfg_pathPrefix domainConfig)
       @ ''/'' @ Array_join ''/'' rest"

definition route :: "string \<Rightarrow> (config_ref \<times> string) option" where
  "route url =
     (case pathParts_of url of
        [] \<Rightarrow> None
      | p # rest \<Rightarrow>
          (case DOMAIN_CONFIGS p of
             None \<Rightarrow> None
           | Some domainConfig \<Rightarrow> Some (domainConfig, targetUrl_of domainConfig rest)))"

section \<open>Thrown values\<close>

text \<open>
  What the \<^verbatim>\<open>catch\<close> of \<^verbatim>\<open>handle\<close> reads of a thrown value: its \<^verbatim>\<open>status\<close> and its
  \<^verbatim>\<open>message\<close>, each of which may be missing (\<open>None\<close>).
\<close>

record js_error =
  err_status :: "nat option"
  err_message :: "string option"

text \<open>The \<^verbatim>\<open>TypeError\<close> of reading a property of \<^verbatim>\<open>undefined\<close>, with the wording of V8.\<close>

definition TypeError_undefined :: "string \<Rightarrow> js_error" where
  "TypeError_undefined field =
     \<lparr>err_status = None,
      err_message = Some (''Cannot read properties of undefined (reading '' @ [CHR 0x27]
                            @ field @ [CHR 0x27] @ '')'')\<rparr>"

definition bind :: "js_error + 'a \<Rightarrow> ('a \<Rightarrow> js_error + 'b) \<Rightarrow> js_error + 'b" where
  "bind m f = (case m of Inl e \<Rightarrow> Inl e | Inr x \<Rightarrow> f x)"

section \<open>Regular expressions\<close>

text \<open>
  The fragment of ECMAScript patterns that the source builds: a character, \<^verbatim>\<open>.\<close>, a
  class \<^verbatim>\<open>[...]\<close>, concatenation, ordered alternation \<^verbatim>\<open>a|b\<close>, greedy \<^verbatim>\<open>a?\<close>, greedy
  \<^verbatim>\<open>[^...]*\<close>, a numbered capture group and the negative lookahead \<^verbatim>\<open>(?!a)\<close>.
\<close>

datatype regex =
    Eps
  | Chr char
  | Dot
  | OneOf "char list"
  | Seq regex regex
  | Alt regex regex
  | Opt regex
  | StarNoneOf "char list"
  | Group nat regex
  | NegLook regex

type_synonym caps = "(nat \<times> string) list"

text \<open>Without the \<^verbatim>\<open>s\<close> flag, \<^verbatim>\<open>.\<close> matches any character but a line terminator.\<close>

definition line_terminators :: "char list" where
  "line_terminators = [CHR 0x0A, CHR 0x0D]"

text \<open>
  The backtracking matcher, in continuation-passing style: \<open>rmatch r s c k\<close> matches \<open>r\<close>
  at the front of \<open>s\<close> and hands the rest of the input and the captures to \<open>k\<close>; when \<open>k\<close>
  fails, the next choice of \<open>r\<close> is tried, in the order ECMAScript prescribes (the left
  alternative first, the longer repetition first).
\<close>

fun rmatch :: "regex \<Rightarrow> string \<Rightarrow> caps \<Rightarrow> (string \<Rightarrow> caps \<Rightarrow> (string \<times> caps) option)
                \<Rightarrow> (string \<times> caps) option" where
  "rmatch Eps s c k = k s c"
| "rmatch (Chr a) s c k = (case s of [] \<Rightarrow> None | x # xs \<Rightarrow> if x = a then k xs c else None)"
| "rmatch Dot s c k =
     (case s of [] \<Rightarrow> None | x # xs \<Rightarrow> if x \<in> set line_terminators then None else k xs c)"
| "rmatch (OneOf as) s c k =
     (case s of [] \<Rightarrow> None | x # xs \<Rightarrow> if x \<in> set as then k xs c else None)"
| "rmatch (Seq r1 r2) s c k = rmatch r1 s c (\<lambda>s' c'. rmatch r2 s' c' k)"
| "rmatch (Alt r1 r2) s c k =
     (case rmatch r1 s c k of Some m \<Rightarrow> Some m | None \<Rightarrow> rmatch r2 s c k)"
| "rmatch (Opt r) s c k = (case rmatch r s c k of Some m \<Rightarrow> Some m | None \<Rightarrow> k s c)"
| "rmatch (StarNoneOf as) s c k =
     (case s of
        [] \<Rightarrow> k [] c
      | x # xs \<Rightarrow>
          if x \<in> set as then k s c
          else (case rmatch (StarNoneOf as) xs c k of Some m \<Rightarrow> Some m | None \<Rightarrow> k s c))"
| "rmatch (Group n r) s c k =
     rmatch r s c (\<lambda>s' c'. k s' ((n, take (length s - length s') s) # c'))"
| "rmatch (NegLook r) s c k =
     (case rmatch r s c (\<lambda>s' c'. Some (s', c')) of Some m \<Rightarrow> None | None \<Rightarrow> k s c)"

text \<open>A match at the front of \<open>s\<close>: what follows the matched text, and the captures.\<close>

definition exec :: "regex \<Rightarrow> string \<Rightarrow> (string \<times> caps) option" where
  "exec r s = rmatch r s [] (\<lambda>s' c'. Some (s', c'))"

text \<open>\<^verbatim>\<open>$n\<close>, or the n-th argument of a replacer function.\<close>

definition cap :: "nat \<Rightarrow> caps \<Rightarrow> string" where
  "cap n c = (case map_of c n of None \<Rightarrow> [] | Some t \<Rightarrow> t)"

text \<open>
  \<^verbatim>\<open>s.replace(r, f)\<close> for a pattern with the \<^verbatim>\<open>g\<close> flag: the matches are found from left
  to right, each search starting where the previous match ended; the replacer \<open>f\<close> is
  called at each match and may throw. An empty match is replaced and the search moves on
  by one character. (\<open>drop (length s - length rest) s\<close> is \<open>rest\<close>, the input after the
  match.)
\<close>

function replace_global :: "regex \<Rightarrow> (caps \<Rightarrow> js_error + string) \<Rightarrow> string \<Rightarrow> js_error + string" where
  "replace_global r f s =
     (case exec r s of
        None \<Rightarrow>
          (case s of
             [] \<Rightarrow> Inr []
           | x # xs \<Rightarrow> (case replace_global r f xs of Inl e \<Rightarrow> Inl e | Inr t \<Rightarrow> Inr (x # t)))
      | Some (rest, c) \<Rightarrow>
          (case f c of
             Inl e \<Rightarrow> Inl e
           | Inr rep \<Rightarrow>
               if length rest < length s then
                 (case replace_global r f (drop (length s - length rest) s) of
                    Inl e \<Rightarrow> Inl e | Inr t \<Rightarrow> Inr (rep @ t))
               else
                 (case s of
                    [] \<Rightarrow> Inr rep
                  | x # xs \<Rightarrow>
                      (case replace_global r f xs of Inl e \<Rightarrow> Inl e | Inr t \<Rightarrow> Inr (rep @ x # t)))))"
  by pat_completeness auto
termination
  by (relation "measure (\<lambda>(r, f, s). length s)") auto

declare replace_global.simps [simp del]

text \<open>
  \<^verbatim>\<open>s.replace(r, rep)\<close> for a pattern without \<^verbatim>\<open>g\<close> that begins with \<^verbatim>\<open>^\<close>: it can match
  at index 0 only, and the matched text is replaced once.
\<close>

definition replace_at_start :: "regex \<Rightarrow> string \<Rightarrow> string \<Rightarrow> string" where
  "replace_at_start r rep s = (case exec r s of None \<Rightarrow> s | Some (rest, c) \<Rightarrow> rep @ rest)"

text \<open>Pattern text in which every character stands for itself.\<close>

fun lit :: "string \<Rightarrow> regex" where
  "lit [] = Eps"
| "lit (c # cs) = Seq (Chr c) (lit cs)"

text \<open>
  A string of the site table spliced into pattern text, as \<^verbatim>\<open>new RegExp(`...${x}...`)\<close>
  reads it: nothing is escaped, so a \<^verbatim>\<open>.\<close> of a host name is the pattern \<^verbatim>\<open>.\<close>; the
  letters and \<^verbatim>\<open>/\<close> stand for themselves. (The table holds no other character.)
\<close>

fun pattern_of :: "string \<Rightarrow> regex" where
  "pattern_of [] = Eps"
| "pattern_of (c # cs) = Seq (if c = CHR ''.'' then Dot else Chr c) (pattern_of cs)"

text \<open>\<^verbatim>\<open>a|b|c\<close> from the list of its alternatives (\<^verbatim>\<open>xs.join('|')\<close>).\<close>

fun alts :: "regex list \<Rightarrow> regex" where
  "alts [] = Eps"
| "alts [r] = r"
| "alts (r # q # rs) = Alt r (alts (q # rs))"

fun seqs :: "regex list \<Rightarrow> regex" where
  "seqs [] = Eps"
| "seqs (r # rs) = Seq r (seqs rs)"

section \<open>HtmlModifier\<close>

text \<open>The common front of the four patterns: \<^verbatim>\<open>(href|src)=["']\<close>.\<close>

definition attr_quote :: "regex list" where
  "attr_quote =
     [Group 1 (Alt (lit ''href'') (lit ''src'')), Chr CHR ''='', OneOf [CHR 0x22, CHR 0x27]]"

text \<open>
  Line 45: \<^verbatim>\<open>(href|src)=["']https?://(D1|D2|D3)/(?:P1|P2|P3)/\<close> with the hosts and the path
  prefixes of the table, every host paired with every path prefix.
\<close>

definition absolute_regex :: regex where
  "absolute_regex =
     seqs (attr_quote @
       [lit ''http'', Opt (Chr CHR ''s''), lit ''://'',
        Group 2 (alts (map pattern_of ALLOWED_DOMAINS)),
        Chr CHR ''/'',
        alts (map (\<lambda>c. pattern_of (pathPrefix c)) DOMAIN_CONFIGS_values),
        Chr CHR ''/''])"

text \<open>
  Line 46, the replacer function: it reads \<^verbatim>\<open>DOMAIN_TO_CONFIG[domain].prefix\<close> at the
  matched host text, which throws when that text is not a key of \<^verbatim>\<open>DOMAIN_TO_CONFIG\<close>.
\<close>

definition absolute_replacer :: "caps \<Rightarrow> js_error + string" where
  \<open>absolute_replacer c =
     (case DOMAIN_TO_CONFIG (cap 2 c) of
        None \<Rightarrow> Inl (TypeError_undefined ''prefix'')
      | Some cfg \<Rightarrow> Inr (cap 1 c @ ''="/'' @ prefix cfg @ ''/''))\<close>

text \<open>Line 50: \<^verbatim>\<open>(href|src)=["']/(?:${pathPrefix})/\<close>.\<close>

definition same_site_regex :: "DomainConfig \<Rightarrow> regex" where
  "same_site_regex config =
     seqs (attr_quote @ [Chr CHR ''/'', pattern_of (pathPrefix config), Chr CHR ''/''])"

text \<open>Line 55: \<^verbatim>\<open>(href|src)=["']/(?!${prefix})\<close>.\<close>

definition root_relative_regex :: "DomainConfig \<Rightarrow> regex" where
  "root_relative_regex config =
     seqs (attr_quote @ [Chr CHR ''/'', NegLook (pattern_of (prefix config))])"

text \<open>Lines 51 and 56, the replacement text \<^verbatim>\<open>$1="/${prefix}/\<close>.\<close>

definition prefix_replacement :: "DomainConfig \<Rightarrow> caps \<Rightarrow> js_error + string" where
  \<open>prefix_replacement config c = Inr (cap 1 c @ ''="/'' @ prefix config @ ''/'')\<close>

text \<open>Line 60: \<^verbatim>\<open>(href|src)=["'](?!http|https|//)([^"']*)["']\<close>.\<close>

definition relative_regex :: regex where
  "relative_regex =
     seqs (attr_quote @
       [NegLook (alts [lit ''http'', lit ''https'', lit ''//'']),
        Group 2 (StarNoneOf [CHR 0x22, CHR 0x27]),
        OneOf [CHR 0x22, CHR 0x27]])"

text \<open>Line 61, the replacement text \<^verbatim>\<open>$1="/${prefix}/$2"\<close>.\<close>

definition relative_replacement :: "DomainConfig \<Rightarrow> caps \<Rightarrow> js_error + string" where
  \<open>relative_replacement config c =
     Inr (cap 1 c @ ''="/'' @ prefix config @ ''/'' @ cap 2 c @ ''"'')\<close>

text \<open>
  \<^verbatim>\<open>modifyHtml\<close>, lines 36 to 63. \<open>this_config\<close> is the field \<^verbatim>\<open>this.config\<close> that the
  constructor read from \<^verbatim>\<open>DOMAIN_TO_CONFIG\<close>; when it is \<^verbatim>\<open>undefined\<close>, building the
  second pattern throws, after the first replacement has run.
\<close>

definition modifyHtml :: "DomainConfig option \<Rightarrow> string \<Rightarrow> js_error + string" where
  \<open>modifyHtml this_config html0 =
     (let html = (if \<not> String_includes html0 ''<meta charset="utf-8"''
                  then String_replace html0 ''</head>'' ''<meta charset="utf-8">\<newline></head>''
                  else html0)
      in bind (replace_global absolute_regex absolute_replacer html) (\<lambda>h2.
           case this_config of
             None \<Rightarrow> Inl (TypeError_undefined ''pathPrefix'')
           | Some config \<Rightarrow>
               bind (replace_global (same_site_regex config) (prefix_replacement config) h2) (\<lambda>h3.
               bind (replace_global (root_relative_regex config) (prefix_replacement config) h3) (\<lambda>h4.
               replace_global relative_regex (relative_replacement config) h4))))\<close>

section \<open>ProxyHandler\<close>

text \<open>
  The collaborators that are not code of the repository are parameters: \<open>fetch\<close> is the
  network (node-fetch: a URL and options to a response, or a throw), \<open>URL\<close> is the
  constructor \<^verbatim>\<open>new URL(input, base)\<close> of Node (the parsed path and query, or a throw),
  \<open>iconv_decode\<close> is \<^verbatim>\<open>iconv.decode(bytes, encoding)\<close>. Header collections are maps from
  names to values; Node and node-fetch deliver the names of received headers in lower case.
  The value of a request header is a string (Node builds an array for \<^verbatim>\<open>set-cookie\<close> only,
  a header of responses); the body of a response stands for the bytes as \<^verbatim>\<open>fetch\<close>
  delivers them.
\<close>

definition FORBIDDEN_HEADERS :: "string list" where
  "FORBIDDEN_HEADERS =
     [''host'', ''connection'', ''content-length'', ''transfer-encoding'', ''keep-alive'',
      ''upgrade'', ''expect'', ''proxy-connection'']"

record Request =
  url :: string
  req_method :: string
  req_headers :: "string \<rightharpoonup> string"
  req_body :: string

record parsed_url =
  pathname :: string
  search :: string

text \<open>The \<^verbatim>\<open>RequestInit\<close> of line 161; a header value \<open>None\<close> is \<^verbatim>\<open>undefined\<close>.\<close>

record fetch_options =
  fo_method :: string
  fo_headers :: "string \<rightharpoonup> string option"
  fo_body :: "string option"
  fo_redirect :: string

record FetchResponse =
  status :: nat
  headers :: "string \<rightharpoonup> string"
  body :: string

record env =
  fetch :: "string \<Rightarrow> fetch_options \<Rightarrow> js_error + FetchResponse"
  URL :: "string \<Rightarrow> string \<Rightarrow> js_error + parsed_url"
  iconv_decode :: "string \<Rightarrow> string option \<Rightarrow> js_error + string"

text \<open>
  The Express response \<^verbatim>\<open>this.res\<close>, as far as the handler writes it: the status code, the
  headers set with \<^verbatim>\<open>setHeader\<close>, and the body, which is sent as a string (\<^verbatim>\<open>send\<close>),
  piped from the origin (\<^verbatim>\<open>pipe\<close>) or not written at all.
\<close>

datatype sent = Unsent | Sent string | Piped string

record Response =
  statusCode :: nat
  res_headers :: "string \<rightharpoonup> string"
  res_body :: sent

text \<open>\<^verbatim>\<open>normalizeReferer\<close>, lines 85 to 104. A referer that is \<^verbatim>\<open>undefined\<close> or empty is falsy.\<close>

definition default_referer :: "config_ref \<Rightarrow> string" where
  "default_referer domainConfig =
     ''http://'' @ tpl (cfg_domain domainConfig) @ ''/'' @ tpl (cfg_pathPrefix domainConfig) @ ''/''"

definition normalizeReferer :: "env \<Rightarrow> Request \<Rightarrow> string option \<Rightarrow> config_ref \<Rightarrow> js_error + string" where
  "normalizeReferer env req referer domainConfig =
     (case referer of
        None \<Rightarrow> Inr (default_referer domainConfig)
      | Some r \<Rightarrow>
          if r = [] then Inr (default_referer domainConfig)
          else bind (URL env r (''http://'' @ tpl (req_headers req ''host''))) (\<lambda>refererUrl.
            case pathParts_of (pathname refererUrl) of
              [] \<Rightarrow> Inr (default_referer domainConfig)
            | p # rest \<Rightarrow>
                (case DOMAIN_CONFIGS p of
                   None \<Rightarrow> Inr (default_referer domainConfig)
                 | Some config \<Rightarrow>
                     Inr (''http://'' @ tpl (cfg_domain config) @ ''/'' @ tpl (cfg_pathPrefix config)
                            @ ''/'' @ Array_join ''/'' rest @ search refererUrl))))"

text \<open>\<^verbatim>\<open>getForwardableHeaders\<close>, lines 106 to 124. Line 111 is the test \<open>forwardable\<close>.\<close>

definition forwardable :: "string \<Rightarrow> string \<Rightarrow> bool" where
  "forwardable key value =
     (let lowerKey = String_toLowerCase key
      in value \<noteq> [] \<and> lowerKey \<notin> set FORBIDDEN_HEADERS \<and> lowerKey \<noteq> ''referer''
           \<and> \<not> String_startsWith lowerKey ''sec-fetch'')"

definition getForwardableHeaders :: "env \<Rightarrow> Request \<Rightarrow> config_ref \<Rightarrow> js_error + (string \<rightharpoonup> string option)" where
  "getForwardableHeaders env req domainConfig =
     (let headers0 = (\<lambda>key. case req_headers req key of
                               None \<Rightarrow> None
                             | Some value \<Rightarrow> if forwardable key value then Some (Some value) else None);
          headers1 = headers0(''host'' \<mapsto> cfg_domain domainConfig)
      in bind (normalizeReferer env req (req_headers req ''referer'') domainConfig) (\<lambda>referer.
           let headers2 = headers1(''referer'' \<mapsto> Some referer)
           in Inr (if req_method req \<in> set [''POST'', ''PUT'', ''DELETE'']
                   then headers2(''origin'' \<mapsto> Some (''http://'' @ tpl (cfg_domain domainConfig)))
                   else headers2)))"

definition fetchOptions_of :: "Request \<Rightarrow> (string \<rightharpoonup> string option) \<Rightarrow> fetch_options" where
  "fetchOptions_of req hs =
     \<lparr>fo_method = req_method req, fo_headers = hs,
      fo_body = (if req_method req \<noteq> ''GET'' then Some (req_body req) else None),
      fo_redirect = ''manual''\<rparr>"

text \<open>
  Lines 170 to 181. The pattern of line 176 is
  \<^verbatim>\<open>^https?://${domain}/${pathPrefix}/\<close>, the replacement text \<^verbatim>\<open>/${prefix}/\<close>.
\<close>

definition location_regex :: "config_ref \<Rightarrow> regex" where
  "location_regex domainConfig =
     seqs [lit ''http'', Opt (Chr CHR ''s''), lit ''://'',
           pattern_of (tpl (cfg_domain domainConfig)), Chr CHR ''/'',
           pattern_of (tpl (cfg_pathPrefix domainConfig)), Chr CHR ''/'']"

definition newLocation :: "config_ref \<Rightarrow> string \<Rightarrow> string" where
  "newLocation domainConfig location =
     replace_at_start (location_regex domainConfig)
       (''/'' @ tpl (cfg_prefix domainConfig) @ ''/'') location"

definition handleRedirect :: "config_ref \<Rightarrow> FetchResponse \<Rightarrow> FetchResponse" where
  "handleRedirect domainConfig response =
     (if 300 \<le> status response \<and> status response < 400 then
        (case headers response ''location'' of
           None \<Rightarrow> response
         | Some location \<Rightarrow>
             if location = [] then response
             else response\<lparr>headers :=
                    (headers response)(''location'' \<mapsto> newLocation domainConfig location)\<rparr>)
      else response)"

text \<open>
  \<^verbatim>\<open>handleHtmlResponse\<close>, lines 200 to 227. The property keys \<^verbatim>\<open>domainToEncoding[domain]\<close>
  and \<^verbatim>\<open>DOMAIN_TO_CONFIG[domain]\<close> are the host name, or the word \<^verbatim>\<open>undefined\<close> when the
  handler passed \<^verbatim>\<open>undefined\<close>.
\<close>

definition domainToEncoding :: "string \<Rightarrow> string option" where
  "domainToEncoding =
     map_of [(''salafitalk.net'', ''iso-8859-1''), (''sahihmuslim.com'', ''windows-1256''),
             (''salafitalk.com'', ''iso-8859-1'')]"

definition handleHtmlResponse :: "env \<Rightarrow> FetchResponse \<Rightarrow> string option \<Rightarrow> Response \<Rightarrow> js_error + Response" where
  "handleHtmlResponse env response domainName res0 =
     bind (iconv_decode env (body response) (domainToEncoding (tpl domainName))) (\<lambda>text.
       if text = [] then Inr (res0\<lparr>statusCode := 500, res_body := Sent ''Failed to decode text''\<rparr>)
       else bind (modifyHtml (DOMAIN_TO_CONFIG (tpl domainName)) text) (\<lambda>modifiedHtml.
         Inr (res0\<lparr>res_headers := (res_headers res0)(''Content-Type'' \<mapsto> ''text/html; charset=utf-8''),
                   res_body := Sent modifiedHtml\<rparr>)))"

text \<open>
  \<^verbatim>\<open>handleNonHtmlResponse\<close>, lines 126 to 134: every header of the origin response whose
  lower-cased name is not forbidden is set on \<^verbatim>\<open>this.res\<close>, and the body is piped.
\<close>

definition handleNonHtmlResponse :: "FetchResponse \<Rightarrow> Response \<Rightarrow> Response" where
  "handleNonHtmlResponse response res0 =
     res0\<lparr>res_headers :=
            res_headers res0 ++
              (\<lambda>key. if String_toLowerCase key \<in> set FORBIDDEN_HEADERS then None
                     else headers response key),
          res_body := Piped (body response)\<rparr>"

text \<open>Line 186: \<^verbatim>\<open>response.headers.get('content-type') || ''\<close>.\<close>

definition contentType_of :: "FetchResponse \<Rightarrow> string" where
  "contentType_of response =
     (case headers response ''content-type'' of None \<Rightarrow> [] | Some v \<Rightarrow> v)"

text \<open>
  Lines 170 to 192, what \<^verbatim>\<open>handle\<close> does with the response of \<^verbatim>\<open>fetch\<close>: the state of
  \<^verbatim>\<open>this.res\<close> it leaves, and the value thrown, if any.
\<close>

definition relay :: "env \<Rightarrow> config_ref \<Rightarrow> FetchResponse \<Rightarrow> Response \<Rightarrow> Response \<times> js_error option" where
  "relay env domainConfig response0 res0 =
     (let response = handleRedirect domainConfig response0;
          res1 = res0\<lparr>statusCode := status response\<rparr>
      in if String_includes (contentType_of response) ''text/html'' then
           (case handleHtmlResponse env response (cfg_domain domainConfig) res1 of
              Inl e \<Rightarrow> (res1, Some e)
            | Inr res2 \<Rightarrow> (res2, None))
         else (handleNonHtmlResponse response res1, None))"

text \<open>
  What a call of \<^verbatim>\<open>handle\<close> leaves behind: the request it passed to \<^verbatim>\<open>fetch\<close>, if it
  called it, and the state of \<^verbatim>\<open>this.res\<close>.
\<close>

record outcome =
  outbound :: "(string \<times> fetch_options) option"
  res :: Response

text \<open>The \<^verbatim>\<open>try\<close> block of \<^verbatim>\<open>handle\<close>, lines 138 to 192, with the value it throws, if any.\<close>

definition handle_try :: "env \<Rightarrow> Request \<Rightarrow> Response \<Rightarrow> outcome \<times> js_error option" where
  "handle_try env req res0 =
     (case route (url req) of
        None \<Rightarrow> (\<lparr>outbound = None, res = res0\<rparr>, None)
      | Some (domainConfig, targetUrl) \<Rightarrow>
          (case getForwardableHeaders env req domainConfig of
             Inl e \<Rightarrow> (\<lparr>outbound = None, res = res0\<rparr>, Some e)
           | Inr hs \<Rightarrow>
               (case fetch env targetUrl (fetchOptions_of req hs) of
                  Inl e \<Rightarrow>
                    (\<lparr>outbound = Some (targetUrl, fetchOptions_of req hs), res = res0\<rparr>, Some e)
                | Inr response \<Rightarrow>
                    (case relay env domainConfig response res0 of
                       (res', thrown) \<Rightarrow>
                         (\<lparr>outbound = Some (targetUrl, fetchOptions_of req hs), res = res'\<rparr>,
                          thrown)))))"

text \<open>
  The \<^verbatim>\<open>catch\<close> block, lines 193 to 197:
  \<^verbatim>\<open>res.status(proxyError.status || 500).send(proxyError.message || 'Proxy request failed')\<close>.
  The number 0 and the empty string are falsy.
\<close>

definition catch :: "js_error \<Rightarrow> Response \<Rightarrow> Response" where
  "catch proxyError res0 =
     res0\<lparr>statusCode := (case err_status proxyError of
                            None \<Rightarrow> 500 | Some s \<Rightarrow> if s = 0 then 500 else s),
          res_body := Sent (case err_message proxyError of
                              None \<Rightarrow> ''Proxy request failed''
                            | Some m \<Rightarrow> if m = [] then ''Proxy request failed'' else m)\<rparr>"

definition handle :: "env \<Rightarrow> Request \<Rightarrow> Response \<Rightarrow> outcome" where
  "handle env req res0 =
     (case handle_try env req res0 of
        (out, None) \<Rightarrow> out
      | (out, Some e) \<Rightarrow> out\<lparr>res := catch e (res out)\<rparr>)"

section \<open>Sample requests and origins\<close>

text \<open>A fresh Express response, and a \<^verbatim>\<open>GET\<close> request without headers.\<close>

definition fresh_res :: Response where
  "fresh_res = \<lparr>statusCode = 200, res_headers = Map.empty, res_body = Unsent\<rparr>"

definition get_request :: "string \<Rightarrow> Request" where
  "get_request u = \<lparr>url = u, req_method = ''GET'', req_headers = Map.empty, req_body = ''''\<rparr>"

text \<open>
  An environment whose network answers every request with the given result, whose URL
  parser returns the given path with an empty query, and whose decoder returns the bytes
  as they are (as iso-8859-1 does on ASCII).
\<close>

definition origin_env :: "(js_error + FetchResponse) \<Rightarrow> string \<Rightarrow> env" where
  "origin_env answer path =
     \<lparr>fetch = (\<lambda>target options. answer),
      URL = (\<lambda>input base. Inr \<lparr>pathname = path, search = ''''\<rparr>),
      iconv_decode = (\<lambda>bytes encoding. Inr bytes)\<rparr>"


definition moved_response :: FetchResponse where
  "moved_response =
     \<lparr>status = 302,
      headers = [''location'' \<mapsto> ''http://salafitalk.net/st/page2'', ''connection'' \<mapsto> ''close''],
      body = ''moved''\<rparr>"



section \<open>Facts about splitting and joining\<close>

lemma String_split_not_Nil: "String_split sep s \<noteq> []"
  by (induction s) (auto split: list.splits)

lemma String_split_no_sep:
  "sep \<notin> set a \<Longrightarrow> String_split sep (a @ sep # b) = a # String_split sep b"
  by (induction a) auto

lemma Array_join_Cons:
  "Array_join sep (p # ps) = (if ps = [] then p else p @ sep @ Array_join sep ps)"
  by (cases ps) auto

lemma Array_join_split: "Array_join [sep] (String_split sep s) = s"
proof (induction s)
  case Nil
  show ?case by simp
next
  case (Cons c cs)
  show ?case
  proof (cases "String_split sep cs")
    case Nil
    with String_split_not_Nil show ?thesis by blast
  next
    case (Cons p ps)
    with Cons.IH show ?thesis
      by (auto simp: Array_join_Cons split: if_splits)
  qed
qed

lemma pathParts_of_prefixed:
  "CHR ''/'' \<notin> set p \<Longrightarrow> p \<noteq> [] \<Longrightarrow>
   pathParts_of (''/'' @ p @ ''/'' @ rest) = p # pathParts_of rest"
  using String_split_no_sep [of "CHR ''/''" p rest]
  by (simp add: pathParts_of_def filter_Boolean_def)

lemma Array_join_filter_Boolean:
  "s = [] \<or> [] \<notin> set (String_split CHR ''/'' s) \<Longrightarrow> Array_join ''/'' (pathParts_of s) = s"
proof (cases "s = []")
  case True
  then show ?thesis by (simp add: pathParts_of_def filter_Boolean_def)
next
  case False
  assume "s = [] \<or> [] \<notin> set (String_split CHR ''/'' s)"
  with False have "filter (\<lambda>p. p \<noteq> []) (String_split CHR ''/'' s) = String_split CHR ''/'' s"
    by (auto simp: filter_id_conv)
  then show ?thesis
    using Array_join_split [of "CHR ''/''" s] by (simp add: pathParts_of_def filter_Boolean_def)
qed

lemma DOMAIN_CONFIGS_values_cases:
  "c \<in> set DOMAIN_CONFIGS_values \<longleftrightarrow> c = st_config \<or> c = sm_config \<or> c = sc_config"
  by (auto simp: DOMAIN_CONFIGS_values_def DOMAIN_CONFIGS_entries_def)

lemma DOMAIN_CONFIGS_own:
  "c \<in> set DOMAIN_CONFIGS_values \<Longrightarrow>
   DOMAIN_CONFIGS (prefix c) = Some (Own c) \<and> CHR ''/'' \<notin> set (prefix c) \<and> prefix c \<noteq> []"
  by (auto simp: DOMAIN_CONFIGS_values_cases DOMAIN_CONFIGS_def DOMAIN_CONFIGS_entries_def
      st_config_def sm_config_def sc_config_def)

lemma route_configured:
  assumes "c \<in> set DOMAIN_CONFIGS_values"
  shows "route (''/'' @ prefix c @ ''/'' @ rest) =
           Some (Own c, ''http://'' @ domain c @ ''/'' @ pathPrefix c @ ''/''
                          @ Array_join ''/'' (pathParts_of rest))"
proof -
  from DOMAIN_CONFIGS_own [OF assms]
  have look: "DOMAIN_CONFIGS (prefix c) = Some (Own c)"
    and parts: "pathParts_of (''/'' @ prefix c @ ''/'' @ rest) = prefix c # pathParts_of rest"
    using pathParts_of_prefixed [of "prefix c" rest] by auto
  show ?thesis
    using parts look by (simp add: route_def targetUrl_of_def tpl_def)
qed

section \<open>The target URL of a configured prefix\<close>

text \<open>
  C1, as the code has it. For every entry \<open>c\<close> of the site table and every remaining path
  \<open>rest\<close>, the request for \<^verbatim>\<open>/{prefix}/rest\<close> is routed to that entry and targets
  \<^verbatim>\<open>http://{domain}/{pathPrefix}/\<close> followed by the non-empty segments of \<open>rest\<close> joined by
  \<^verbatim>\<open>/\<close>; that tail is \<open>rest\<close> itself when \<open>rest\<close> is empty or has no empty segment (no
  doubled or trailing slash). An empty \<^verbatim>\<open>pathPrefix\<close> is not collapsed: for the site
  \<^verbatim>\<open>sc\<close> the target is \<^verbatim>\<open>http://salafitalk.com//\<close> followed by that tail.
\<close>

theorem C1_target_url:
  assumes "c \<in> set DOMAIN_CONFIGS_values"
  shows "route (''/'' @ prefix c @ ''/'' @ rest) =
           Some (Own c, ''http://'' @ domain c @ ''/'' @ pathPrefix c @ ''/''
                          @ Array_join ''/'' (pathParts_of rest))
         \<and> (rest = [] \<or> [] \<notin> set (String_split CHR ''/'' rest) \<longrightarrow>
              route (''/'' @ prefix c @ ''/'' @ rest) =
                Some (Own c, ''http://'' @ domain c @ ''/'' @ pathPrefix c @ ''/'' @ rest))
         \<and> (c = sc_config \<longrightarrow>
              route (''/'' @ prefix c @ ''/'' @ rest) =
                Some (Own c, ''http://salafitalk.com//'' @ Array_join ''/'' (pathParts_of rest)))"
  using route_configured [OF assms, of rest] Array_join_filter_Boolean [of rest]
  by (auto simp: sc_config_def)

theorem C1_target_url_witness:
  "sm_config \<in> set DOMAIN_CONFIGS_values
   \<and> route ''/sm/book//1/'' = Some (Own sm_config, ''http://sahihmuslim.com/sps/smm/book/1'')
   \<and> route ''/sc/a/b'' = Some (Own sc_config, ''http://salafitalk.com//a/b'')"
proof -
  have m: "sm_config \<in> set DOMAIN_CONFIGS_values" and c: "sc_config \<in> set DOMAIN_CONFIGS_values"
    by (simp_all add: DOMAIN_CONFIGS_values_cases)
  have "Array_join ''/'' (pathParts_of ''book//1/'') = ''book/1''"
    by (simp add: pathParts_of_def filter_Boolean_def)
  moreover have "[] \<notin> set (String_split CHR ''/'' ''a/b'')"
    by simp
  ultimately show ?thesis
    using m C1_target_url [OF m, of "''book//1/''"] C1_target_url [OF c, of "''a/b''"]
    by (simp add: sm_config_def sc_config_def pathParts_of_def filter_Boolean_def)
qed

text \<open>
  C1 as stated fails at the site with the empty path prefix: the target of \<^verbatim>\<open>/sc/foo\<close>
  keeps the empty segment, so it is not \<^verbatim>\<open>http://salafitalk.com/foo\<close>.
\<close>

theorem C1_counterexample:
  "map_option snd (route ''/sc/foo'') = Some ''http://salafitalk.com//foo''
   \<and> map_option snd (route ''/sc/foo'') \<noteq> Some ''http://salafitalk.com/foo''"
  by (simp add: route_def pathParts_of_def filter_Boolean_def DOMAIN_CONFIGS_def
      DOMAIN_CONFIGS_entries_def sc_config_def targetUrl_of_def tpl_def)

section \<open>Facts about the handler\<close>

lemmas eval_defs = route_def pathParts_of_def filter_Boolean_def DOMAIN_CONFIGS_def
  DOMAIN_CONFIGS_entries_def Object_prototype_keys_def targetUrl_of_def tpl_def
  st_config_def sm_config_def sc_config_def get_request_def origin_env_def fresh_res_def

lemma handleRedirect_status [simp]: "status (handleRedirect dc r) = status r"
  by (simp add: handleRedirect_def split: option.splits)

lemma handleRedirect_body [simp]: "body (handleRedirect dc r) = body r"
  by (simp add: handleRedirect_def split: option.splits)

lemma handleRedirect_headers:
  "headers (handleRedirect dc r) key =
     (case headers r key of
        None \<Rightarrow> None
      | Some v \<Rightarrow>
          Some (if key = ''location'' \<and> 300 \<le> status r \<and> status r < 400 \<and> v \<noteq> []
                then newLocation dc v else v))"
  by (auto simp: handleRedirect_def split: option.splits)

lemma contentType_handleRedirect [simp]:
  "contentType_of (handleRedirect dc r) = contentType_of r"
  by (simp add: contentType_of_def handleRedirect_headers split: option.splits)

lemma handleRedirect_other_status:
  "\<not> (300 \<le> status r \<and> status r < 400) \<Longrightarrow> handleRedirect dc r = r"
  by (auto simp: handleRedirect_def)

text \<open>
  The pattern of line 176 does match a location that begins with the origin's own
  \<^verbatim>\<open>http(s)://{domain}/{pathPrefix}/\<close>, and the replacement puts \<^verbatim>\<open>/{prefix}/\<close> there.
\<close>

lemma newLocation_exact:
  assumes "c \<in> set DOMAIN_CONFIGS_values"
  shows "newLocation (Own c) (''http://'' @ domain c @ ''/'' @ pathPrefix c @ ''/'' @ rest)
           = ''/'' @ prefix c @ ''/'' @ rest"
    and "newLocation (Own c) (''https://'' @ domain c @ ''/'' @ pathPrefix c @ ''/'' @ rest)
           = ''/'' @ prefix c @ ''/'' @ rest"
  using assms
  by (auto simp: DOMAIN_CONFIGS_values_cases newLocation_def replace_at_start_def exec_def
      location_regex_def tpl_def st_config_def sm_config_def sc_config_def line_terminators_def)

text \<open>
  A redirect whose content type is \<^verbatim>\<open>text/html\<close> takes the HTML path, which sets no header
  but \<^verbatim>\<open>Content-Type\<close>: the rewritten location does not reach the client.
\<close>

lemma html_redirect_drops_location:
  "res_headers (res (handle
      (origin_env (Inr \<lparr>status = 302,
                         headers = [''location'' \<mapsto> ''http://salafitalk.net/st/page2'',
                                    ''content-type'' \<mapsto> ''text/html''],
                         body = ''moved''\<rparr>) ''/'')
      (get_request ''/st/page1'') fresh_res)) ''location'' = None"
  by code_simp

text \<open>The three cases of \<^verbatim>\<open>normalizeReferer\<close>.\<close>

lemma normalizeReferer_absent:
  "referer = None \<or> referer = Some [] \<Longrightarrow>
   normalizeReferer env req referer dc = Inr (default_referer dc)"
  by (auto simp: normalizeReferer_def)

lemma normalizeReferer_parsed:
  assumes "r \<noteq> []"
    and "URL env r (''http://'' @ tpl (req_headers req ''host'')) = Inr u"
  shows "normalizeReferer env req (Some r) dc =
           (case pathParts_of (pathname u) of
              [] \<Rightarrow> Inr (default_referer dc)
            | p # rest \<Rightarrow>
                (case DOMAIN_CONFIGS p of
                   None \<Rightarrow> Inr (default_referer dc)
                 | Some Inherited \<Rightarrow>
                     Inr (''http://undefined/undefined/'' @ Array_join ''/'' rest @ search u)
                 | Some (Own q) \<Rightarrow>
                     Inr (''http://'' @ domain q @ ''/'' @ pathPrefix q @ ''/''
                            @ Array_join ''/'' rest @ search u)))"
  using assms
  by (simp add: normalizeReferer_def bind_def tpl_def
      split: list.splits option.splits config_ref.splits)

lemma normalizeReferer_example:
  "normalizeReferer (origin_env answer ''/sm/book/1'') req (Some ''/sm/book/1'') (Own st_config)
     = Inr ''http://sahihmuslim.com/sps/smm/book/1''"
  by (simp add: normalizeReferer_def bind_def eval_defs)

text \<open>Where the handler calls \<^verbatim>\<open>fetch\<close>, and with which target.\<close>

lemma handle_not_routed:
  "route (url req) = None \<Longrightarrow> handle env req res0 = \<lparr>outbound = None, res = res0\<rparr>"
  by (simp add: handle_def handle_try_def)

lemma handle_unknown_prefix:
  "handle env (get_request ''/xx/foo'') res0 = \<lparr>outbound = None, res = res0\<rparr>"
  by (rule handle_not_routed) (simp add: eval_defs)

lemma handle_outbound_routed:
  "outbound (handle env req res0) = Some (u, opts) \<Longrightarrow> \<exists>dc. route (url req) = Some (dc, u)"
  by (auto simp: handle_def handle_try_def split: option.splits sum.splits prod.splits)

lemma route_cases:
  "route u = Some (dc, t) \<Longrightarrow>
   dc = Inherited \<or> (\<exists>c \<in> set DOMAIN_CONFIGS_values. dc = Own c \<and> domain c \<in> set ALLOWED_DOMAINS)"
  by (auto simp: route_def DOMAIN_CONFIGS_def DOMAIN_CONFIGS_values_def ALLOWED_DOMAINS_def
      DOMAIN_CONFIGS_entries_def split: list.splits option.splits if_splits)

lemma relay_non_html:
  assumes "\<not> String_includes (contentType_of response) ''text/html''"
  shows "relay env dc response res0 =
           (handleNonHtmlResponse (handleRedirect dc response)
              (res0\<lparr>statusCode := status response\<rparr>), None)"
  using assms by (simp add: relay_def Let_def)

lemma handle_fetched:
  assumes "route (url req) = Some (dc, targetUrl)"
    and "getForwardableHeaders env req dc = Inr hs"
    and "fetch env targetUrl (fetchOptions_of req hs) = Inr response"
  shows "handle env req res0 =
           (case relay env dc response res0 of
              (r, None) \<Rightarrow> \<lparr>outbound = Some (targetUrl, fetchOptions_of req hs), res = r\<rparr>
            | (r, Some e) \<Rightarrow>
                \<lparr>outbound = Some (targetUrl, fetchOptions_of req hs), res = catch e r\<rparr>)"
  using assms by (simp add: handle_def handle_try_def split: prod.splits option.splits)


lemma relay_throws:
  "snd (relay env dc response res0) = Some e \<longleftrightarrow>
     String_includes (contentType_of response) ''text/html''
     \<and> handleHtmlResponse env (handleRedirect dc response) (cfg_domain dc)
         (res0\<lparr>statusCode := status response\<rparr>) = Inl e"
  by (auto simp: relay_def Let_def split: sum.splits)

lemma handleHtmlResponse_throws:
  "handleHtmlResponse env response domainName res0 = Inl e \<longleftrightarrow>
     iconv_decode env (body response) (domainToEncoding (tpl domainName)) = Inl e
     \<or> (\<exists>decoded. iconv_decode env (body response) (domainToEncoding (tpl domainName)) = Inr decoded
           \<and> decoded \<noteq> [] \<and> modifyHtml (DOMAIN_TO_CONFIG (tpl domainName)) decoded = Inl e)"
  by (auto simp: handleHtmlResponse_def bind_def split: sum.splits)


lemma getForwardableHeaders_no_referer:
  "\<exists>hs. getForwardableHeaders env (get_request u) dc = Inr hs"
  by (simp add: getForwardableHeaders_def normalizeReferer_def bind_def Let_def get_request_def)


section \<open>The HTML link rewriter\<close>

text \<open>
  C2. Rewriting is stated to be idempotent. The code is not: on the page
  \<^verbatim>\<open><a href="page.html">\<close> served for the site \<^verbatim>\<open>st\<close>, one application gives
  \<^verbatim>\<open><a href="/st/page.html">\<close>, and applying the rewriter to that output gives
  \<^verbatim>\<open><a href="/st//st/page.html">\<close>: the pattern of line 60 excludes only values that begin
  with \<^verbatim>\<open>http\<close> or \<^verbatim>\<open>//\<close>, so it matches the value the first application produced.
\<close>

theorem C2_rewrite_twice:
  \<open>modifyHtml (Some st_config) ''<a href="page.html">'' = Inr ''<a href="/st/page.html">''
   \<and> modifyHtml (Some st_config) ''<a href="/st/page.html">''
       = Inr ''<a href="/st//st/page.html">''\<close>
  by code_simp

text \<open>
  C3. The last rule is stated to leave alone a value that an earlier rule rewrote or that
  already begins with \<^verbatim>\<open>/{prefix}\<close>. In the code the last replacement, run on its own on
  \<^verbatim>\<open><a href="/st/page">\<close> for the site \<^verbatim>\<open>st\<close>, prepends the prefix a second time; so does
  the whole pipeline, on that page and on \<^verbatim>\<open><img src="/logo.png">\<close>, whose value the rule
  of line 55 has rewritten to \<^verbatim>\<open>/st/logo.png\<close> before.
\<close>

theorem C3_double_prefix:
  \<open>replace_global relative_regex (relative_replacement st_config) ''<a href="/st/page">''
     = Inr ''<a href="/st//st/page">''
   \<and> modifyHtml (Some st_config) ''<a href="/st/page">'' = Inr ''<a href="/st//st/page">''
   \<and> modifyHtml (Some st_config) ''<img src="/logo.png">''
       = Inr ''<img src="/st//st/logo.png">''\<close>
  by code_simp

text \<open>
  C4. A link to another configured site is stated to come out as \<^verbatim>\<open>/{that site's prefix}/...\<close>.
  On a page served for \<^verbatim>\<open>st\<close>, the link \<^verbatim>\<open>http://sahihmuslim.com/sps/smm/book/1\<close> is
  first rewritten to \<^verbatim>\<open>/sm/book/1\<close>, then the rule of line 55 (which spares only the current
  site's prefix) and the rule of line 60 each prepend \<^verbatim>\<open>/st/\<close>: the result is
  \<^verbatim>\<open>/st//st/sm/book/1\<close>. The first replacement also pairs a host with the path prefix of
  another site: \<^verbatim>\<open>http://salafitalk.net/sps/smm/x\<close> becomes \<^verbatim>\<open>/st/x\<close>.
\<close>

theorem C4_cross_site:
  \<open>modifyHtml (Some st_config) ''<a href="http://sahihmuslim.com/sps/smm/book/1">''
     = Inr ''<a href="/st//st/sm/book/1">''
   \<and> replace_global absolute_regex absolute_replacer ''<a href="http://sahihmuslim.com/sps/smm/book/1">''
     = Inr ''<a href="/sm/book/1">''
   \<and> replace_global absolute_regex absolute_replacer ''<a href="http://salafitalk.net/sps/smm/x">''
     = Inr ''<a href="/st/x">''\<close>
  by code_simp

section \<open>The referer\<close>

text \<open>
  C5. A referer whose first path segment is not a known prefix is stated to give the
  default referer of the current site. For the referer
  \<^verbatim>\<open>http://proxy.example/constructor/x\<close>, whose path the URL parser returns as
  \<^verbatim>\<open>/constructor/x\<close>, the lookup \<^verbatim>\<open>DOMAIN_CONFIGS['constructor']\<close> finds the member inherited
  from \<^verbatim>\<open>Object.prototype\<close>, the test of line 95 passes, and the referer sent to the origin is
  \<^verbatim>\<open>http://undefined/undefined/x\<close>, not \<^verbatim>\<open>http://salafitalk.net/st/\<close>.
\<close>

theorem C5_inherited_segment:
  "normalizeReferer
     (env\<lparr>URL := \<lambda>input base. Inr \<lparr>pathname = ''/constructor/x'', search = ''''\<rparr>\<rparr>) req
     (Some ''http://proxy.example/constructor/x'') (Own st_config)
   = Inr ''http://undefined/undefined/x''
   \<and> default_referer (Own st_config) = ''http://salafitalk.net/st/''"
  by (simp add: normalizeReferer_def bind_def default_referer_def eval_defs)

section \<open>The location of a redirect\<close>

text \<open>
  C6. A location that does not begin exactly with the origin's own
  \<^verbatim>\<open>http(s)://{domain}/{pathPrefix}/\<close> is stated to pass unchanged. The host name is
  spliced into the pattern unescaped, so its \<^verbatim>\<open>.\<close> matches any character: for the site
  \<^verbatim>\<open>st\<close>, the location \<^verbatim>\<open>http://salafitalkXnet/st/page2\<close> of another host is rewritten to
  \<^verbatim>\<open>/st/page2\<close>, in the response headers and in what the client receives.
\<close>

theorem C6_other_host_rewritten:
  "newLocation (Own st_config) ''http://salafitalkXnet/st/page2'' = ''/st/page2''
   \<and> headers (handleRedirect (Own st_config)
        \<lparr>status = 302, headers = [''location'' \<mapsto> ''http://salafitalkXnet/st/page2''],
         body = ''''\<rparr>) ''location'' = Some ''/st/page2''
   \<and> res_headers (res (handle
        (origin_env (Inr \<lparr>status = 302,
                           headers = [''location'' \<mapsto> ''http://salafitalkXnet/st/page2''],
                           body = ''''\<rparr>) ''/'')
        (get_request ''/st/page1'') fresh_res)) ''location'' = Some ''/st/page2''"
  by code_simp

section \<open>Outbound requests\<close>

text \<open>
  C7. No request is stated to leave for a first segment that is not a configured prefix.
  For the inbound path \<^verbatim>\<open>/constructor/foo\<close> the lookup \<^verbatim>\<open>DOMAIN_CONFIGS['constructor']\<close>
  finds the member inherited from \<^verbatim>\<open>Object.prototype\<close>, the guard of line 147 does not
  return, and \<^verbatim>\<open>fetch\<close> is called with the target \<^verbatim>\<open>http://undefined/undefined/foo\<close>,
  whatever the network, the parser and the state of the response are.
\<close>

theorem C7_inherited_prefix:
  "map_option fst (outbound (handle env (get_request ''/constructor/foo'') res0))
     = Some ''http://undefined/undefined/foo''
   \<and> ''undefined'' \<notin> set ALLOWED_DOMAINS"
proof -
  let ?req = "get_request ''/constructor/foo''"
  have r: "route (url ?req) = Some (Inherited, ''http://undefined/undefined/foo'')"
    by (simp add: eval_defs)
  obtain hs where g: "getForwardableHeaders env ?req Inherited = Inr hs"
    using getForwardableHeaders_no_referer by blast
  have "map_option fst (outbound (handle env ?req res0)) = Some ''http://undefined/undefined/foo''"
    using r g
    by (cases "fetch env ''http://undefined/undefined/foo'' (fetchOptions_of ?req hs)")
       (auto simp: handle_def handle_try_def split: prod.splits option.splits)
  moreover have "''undefined'' \<notin> set ALLOWED_DOMAINS"
    by (simp add: ALLOWED_DOMAINS_def DOMAIN_CONFIGS_values_def DOMAIN_CONFIGS_entries_def
        st_config_def sm_config_def sc_config_def)
  ultimately show ?thesis by simp
qed

section \<open>Relaying a response that is not HTML\<close>

text \<open>
  C8. When the request is routed, its headers are built and \<^verbatim>\<open>fetch\<close> returns a response
  whose content type does not contain \<^verbatim>\<open>text/html\<close>, the handler answers with the origin's
  status code and pipes the origin's body as it is; a header whose lower-cased name is
  forbidden is not copied (the response keeps what it held under that name); every other
  header of the origin is copied with its value, the \<^verbatim>\<open>location\<close> of a redirect with the
  value the redirect handling gave it; and a name the origin did not send is left as it was.
\<close>

theorem C8_non_html_relay:
  assumes "route (url req) = Some (dc, targetUrl)"
    and "getForwardableHeaders env req dc = Inr hs"
    and "fetch env targetUrl (fetchOptions_of req hs) = Inr response"
    and "\<not> String_includes (contentType_of response) ''text/html''"
  shows "statusCode (res (handle env req res0)) = status response
     \<and> res_body (res (handle env req res0)) = Piped (body response)
     \<and> (\<forall>key. String_toLowerCase key \<in> set FORBIDDEN_HEADERS \<longrightarrow>
           res_headers (res (handle env req res0)) key = res_headers res0 key)
     \<and> (\<forall>key v. String_toLowerCase key \<notin> set FORBIDDEN_HEADERS \<longrightarrow>
           headers response key = Some v \<longrightarrow>
           res_headers (res (handle env req res0)) key =
             Some (if key = ''location'' \<and> 300 \<le> status response \<and> status response < 400
                      \<and> v \<noteq> []
                   then newLocation dc v else v))
     \<and> (\<forall>key. headers response key = None \<longrightarrow>
           res_headers (res (handle env req res0)) key = res_headers res0 key)"
proof -
  have h: "res (handle env req res0) =
             handleNonHtmlResponse (handleRedirect dc response)
               (res0\<lparr>statusCode := status response\<rparr>)"
    using handle_fetched [OF assms(1-3), of res0] relay_non_html [OF assms(4), of env dc res0]
    by simp
  show ?thesis
    unfolding h
    by (simp add: handleNonHtmlResponse_def map_add_def handleRedirect_headers)
qed

theorem C8_non_html_relay_witness:
  "\<not> String_includes (contentType_of moved_response) ''text/html''
   \<and> statusCode (res (handle (origin_env (Inr moved_response) ''/'')
                      (get_request ''/st/page1'') fresh_res)) = 302
   \<and> res_body (res (handle (origin_env (Inr moved_response) ''/'')
                      (get_request ''/st/page1'') fresh_res)) = Piped ''moved''
   \<and> res_headers (res (handle (origin_env (Inr moved_response) ''/'')
                      (get_request ''/st/page1'') fresh_res)) ''location'' = Some ''/st/page2''
   \<and> res_headers (res (handle (origin_env (Inr moved_response) ''/'')
                      (get_request ''/st/page1'') fresh_res)) ''connection'' = None"
proof -
  let ?env = "origin_env (Inr moved_response) ''/''"
  let ?req = "get_request ''/st/page1''"
  have r: "route (url ?req) = Some (Own st_config, ''http://salafitalk.net/st/page1'')"
    by (simp add: eval_defs)
  obtain hs where g: "getForwardableHeaders ?env ?req (Own st_config) = Inr hs"
    using getForwardableHeaders_no_referer by blast
  have f: "fetch ?env ''http://salafitalk.net/st/page1'' (fetchOptions_of ?req hs)
             = Inr moved_response"
    by (simp add: origin_env_def)
  have c: "\<not> String_includes (contentType_of moved_response) ''text/html''"
    by (simp add: contentType_of_def moved_response_def)
  have n: "newLocation (Own st_config) ''http://salafitalk.net/st/page2'' = ''/st/page2''"
    by code_simp
  have l: "String_toLowerCase ''location'' \<notin> set FORBIDDEN_HEADERS"
    "String_toLowerCase ''connection'' \<in> set FORBIDDEN_HEADERS"
    by code_simp+
  show ?thesis
    using C8_non_html_relay [OF r g f c, of fresh_res] c n l
    by (simp add: fresh_res_def moved_response_def)
qed

section \<open>The catch of the handler\<close>




section \<open>The decoded page\<close>



end
